theory Spec2Isabelle
  imports Main "HOL-Library.Word"
begin

unbundle bit_operations_syntax

section \<open>The environment of the two scripts\<close>

text \<open>
  The repository's code consists of two Node.js scripts, \<^verbatim>\<open>scripts/set-executable.js\<close> and
  \<^verbatim>\<open>scripts/package-and-install.js\<close>. Both are straight-line programs over the
  \<^verbatim>\<open>fs\<close>, \<^verbatim>\<open>path\<close>, \<^verbatim>\<open>child_process\<close> and \<^verbatim>\<open>console\<close> modules. The scripts are
  embedded as state-passing functions over a \<open>world\<close>: the file system together with the
  ordered trace of every call a script makes to the outside.

  A JavaScript string is a list of UTF-16 code units. A file is known by its path and its
  \<^verbatim>\<open>st_mode\<close>, a 16-bit value (file type in the upper four bits, permissions in the lower
  twelve); JavaScript's \<^verbatim>\<open>|\<close> works on 32 bits and agrees with the 16-bit operation on
  such values.

  The file system is a map from path strings to modes. What the map does not show is a
  parameter of the environment: an external command is an arbitrary function from the
  command line and the file system to a result (its output, or the error \<^verbatim>\<open>execSync\<close>
  throws) and a new file system; \<^verbatim>\<open>path.join\<close> and \<^verbatim>\<open>process.cwd()\<close> are parameters; and
  the kernel may refuse \<^verbatim>\<open>stat\<close>, \<^verbatim>\<open>chmod\<close> or \<^verbatim>\<open>unlink\<close> on a path for a reason of its
  own (\<^verbatim>\<open>EACCES\<close>, \<^verbatim>\<open>ENOTDIR\<close>, \<^verbatim>\<open>EPERM\<close>, \<^verbatim>\<open>EROFS\<close>, \<^verbatim>\<open>EBUSY\<close>), given for each call
  as a partial function from paths to the error thrown. These refusals depend on
  ownership, on the directories of the path and on the mount, none of which the scripts
  change, so they are fixed for a run. The \<^verbatim>\<open>console\<close> calls do not throw.
\<close>

type_synonym code_unit = "16 word"
type_synonym jsstring = "code_unit list"
type_synonym path = jsstring
type_synonym mode = "16 word"

definition js :: "string \<Rightarrow> jsstring" where
  "js s = map of_char s"

text \<open>Octal literals such as \<^verbatim>\<open>0o111\<close>, digit by digit.\<close>

definition octal :: "int list \<Rightarrow> mode" where
  "octal ds = of_int (foldl (\<lambda>a d. 8 * a + d) 0 ds)"

datatype error = Error (message: jsstring)

datatype arg = Str jsstring | ErrObj error

datatype event =
    ConsoleLog "arg list"
  | ConsoleError "arg list"
  | ExecSync jsstring
  | ExistsSync path
  | UnlinkSync path
  | StatSync path
  | ChmodSync path mode

type_synonym filesystem = "path \<rightharpoonup> mode"

record world =
  fs :: filesystem
  trace :: "event list"

record stats =
  mode :: mode

record env =
  cwd :: path
  path_join :: "path list \<Rightarrow> path"
  run_command :: "jsstring \<Rightarrow> filesystem \<Rightarrow> (error + jsstring) \<times> filesystem"
  stat_fault :: "path \<Rightarrow> error option"
  chmod_fault :: "path \<Rightarrow> error option"
  chmod_clears_setgid :: "path \<Rightarrow> bool"
  unlink_fault :: "path \<Rightarrow> error option"

definition emit :: "event \<Rightarrow> world \<Rightarrow> world" where
  "emit ev w = w\<lparr>trace := trace w @ [ev]\<rparr>"

definition console_log :: "arg list \<Rightarrow> world \<Rightarrow> world" where
  "console_log args w = emit (ConsoleLog args) w"

definition console_error :: "arg list \<Rightarrow> world \<Rightarrow> world" where
  "console_error args w = emit (ConsoleError args) w"

text \<open>The errors of the \<^verbatim>\<open>fs\<close> module: description, system call and quoted path.\<close>

definition system_error :: "string \<Rightarrow> string \<Rightarrow> path \<Rightarrow> error" where
  "system_error description syscall p =
     Error (js description @ js '', '' @ js syscall @ js '' '' @ [39] @ p @ [39])"

definition enoent :: "string \<Rightarrow> path \<Rightarrow> error" where
  "enoent syscall p = system_error ''ENOENT: no such file or directory'' syscall p"

definition eisdir :: "string \<Rightarrow> path \<Rightarrow> error" where
  "eisdir syscall p = system_error ''EISDIR: illegal operation on a directory'' syscall p"

definition eperm :: "string \<Rightarrow> path \<Rightarrow> error" where
  "eperm syscall p = system_error ''EPERM: operation not permitted'' syscall p"

definition eacces :: "string \<Rightarrow> path \<Rightarrow> error" where
  "eacces syscall p = system_error ''EACCES: permission denied'' syscall p"

subsection \<open>The system calls\<close>

text \<open>
  Each call first meets the kernel's refusal, if there is one for the path; otherwise a
  missing path is \<^verbatim>\<open>ENOENT\<close>. A refused or failed call leaves the file system as it is.
\<close>

definition os_stat :: "env \<Rightarrow> path \<Rightarrow> filesystem \<Rightarrow> error + mode" where
  "os_stat e p f =
     (case stat_fault e p of
        Some err \<Rightarrow> Inl err
      | None \<Rightarrow> (case f p of None \<Rightarrow> Inl (enoent ''stat'' p) | Some m \<Rightarrow> Inr m))"

text \<open>
  \<^verbatim>\<open>chmod(2)\<close> replaces the twelve permission bits (\<^verbatim>\<open>0o7777\<close>) by those of its argument and
  keeps the file type bits (\<^verbatim>\<open>S_IFMT = 0o170000\<close>) of the file. For an unprivileged caller
  outside the group of the file the kernel turns the set-group-ID bit
  (\<^verbatim>\<open>S_ISGID = 0o2000\<close>) off, without an error.
\<close>

definition chmod_mode :: "env \<Rightarrow> path \<Rightarrow> mode \<Rightarrow> mode \<Rightarrow> mode" where
  "chmod_mode e p old m =
     (old AND octal [1,7,0,0,0,0]) OR
     (if chmod_clears_setgid e p
      then (m AND octal [7,7,7,7]) AND NOT (octal [2,0,0,0])
      else m AND octal [7,7,7,7])"

definition os_chmod :: "env \<Rightarrow> path \<Rightarrow> mode \<Rightarrow> filesystem \<Rightarrow> error + filesystem" where
  "os_chmod e p m f =
     (case chmod_fault e p of
        Some err \<Rightarrow> Inl err
      | None \<Rightarrow>
          (case f p of
             None \<Rightarrow> Inl (enoent ''chmod'' p)
           | Some old \<Rightarrow> Inr (f(p \<mapsto> chmod_mode e p old m))))"

text \<open>
  \<^verbatim>\<open>unlink(2)\<close> does not remove a directory (\<^verbatim>\<open>S_IFDIR = 0o040000\<close>): it fails with
  \<^verbatim>\<open>EISDIR\<close>.
\<close>

definition os_unlink :: "env \<Rightarrow> path \<Rightarrow> filesystem \<Rightarrow> error + filesystem" where
  "os_unlink e p f =
     (case unlink_fault e p of
        Some err \<Rightarrow> Inl err
      | None \<Rightarrow>
          (case f p of
             None \<Rightarrow> Inl (enoent ''unlink'' p)
           | Some m \<Rightarrow>
               if m AND octal [1,7,0,0,0,0] = octal [0,4,0,0,0,0]
               then Inl (eisdir ''unlink'' p)
               else Inr (f(p := None))))"

subsection \<open>The \<^verbatim>\<open>fs\<close> module\<close>

text \<open>
  The synchronous calls of the module record the call in the trace and throw the error of
  the system call.
\<close>

definition statSync :: "env \<Rightarrow> path \<Rightarrow> world \<Rightarrow> (error + stats) \<times> world" where
  "statSync e p w =
     (let w' = emit (StatSync p) w in
      case os_stat e p (fs w) of
        Inl err \<Rightarrow> (Inl err, w')
      | Inr m \<Rightarrow> (Inr \<lparr>mode = m\<rparr>, w'))"

definition chmodSync :: "env \<Rightarrow> path \<Rightarrow> mode \<Rightarrow> world \<Rightarrow> (error + unit) \<times> world" where
  "chmodSync e p m w =
     (let w' = emit (ChmodSync p m) w in
      case os_chmod e p m (fs w) of
        Inl err \<Rightarrow> (Inl err, w')
      | Inr f \<Rightarrow> (Inr (), w'\<lparr>fs := f\<rparr>))"

text \<open>\<^verbatim>\<open>existsSync\<close> never throws: it answers whether the path is in the file system.\<close>

definition existsSync :: "path \<Rightarrow> world \<Rightarrow> bool \<times> world" where
  "existsSync p w = (fs w p \<noteq> None, emit (ExistsSync p) w)"

definition unlinkSync :: "env \<Rightarrow> path \<Rightarrow> world \<Rightarrow> (error + unit) \<times> world" where
  "unlinkSync e p w =
     (let w' = emit (UnlinkSync p) w in
      case os_unlink e p (fs w) of
        Inl err \<Rightarrow> (Inl err, w')
      | Inr f \<Rightarrow> (Inr (), w'\<lparr>fs := f\<rparr>))"

subsection \<open>\<^verbatim>\<open>child_process.execSync\<close>\<close>

definition execSync :: "env \<Rightarrow> jsstring \<Rightarrow> world \<Rightarrow> (error + jsstring) \<times> world" where
  "execSync e cmd w =
     (let (r, fs') = run_command e cmd (fs w) in
      (r, (emit (ExecSync cmd) w)\<lparr>fs := fs'\<rparr>))"

subsection \<open>\<^verbatim>\<open>String.prototype.trim\<close>\<close>

text \<open>
  The code units ECMAScript calls \<^verbatim>\<open>WhiteSpace\<close> or \<^verbatim>\<open>LineTerminator\<close>: TAB, LF, VT, FF, CR,
  SP, NBSP, U+1680, U+2000 to U+200A, U+2028, U+2029, U+202F, U+205F, U+3000 and U+FEFF.
\<close>

definition is_ws :: "code_unit \<Rightarrow> bool" where
  "is_ws c \<longleftrightarrow>
     c = 9 \<or> c = 10 \<or> c = 11 \<or> c = 12 \<or> c = 13 \<or> c = 32 \<or> c = 160 \<or> c = 5760 \<or>
     (8192 \<le> c \<and> c \<le> 8202) \<or> c = 8232 \<or> c = 8233 \<or> c = 8239 \<or> c = 8287 \<or>
     c = 12288 \<or> c = 65279"

definition trim :: "jsstring \<Rightarrow> jsstring" where
  "trim s = rev (dropWhile is_ws (rev (dropWhile is_ws s)))"

section \<open>\<^verbatim>\<open>scripts/set-executable.js\<close>\<close>

definition files :: "env \<Rightarrow> path list" where
  "files e =
     [path_join e [js ''bin'', js ''task-master.js''],
      path_join e [js ''mcp-server'', js ''server.js'']]"

text \<open>The body of the \<^verbatim>\<open>forEach\<close> callback: one \<^verbatim>\<open>try\<close>/\<^verbatim>\<open>catch\<close> per file.\<close>

definition set_executable_file :: "env \<Rightarrow> path \<Rightarrow> world \<Rightarrow> world" where
  "set_executable_file e file w =
     (case statSync e file w of
        (Inl err, w1) \<Rightarrow>
          console_error
            [Str (js ''Failed to set executable permissions for: '' @ file), ErrObj err] w1
      | (Inr st, w1) \<Rightarrow>
          (case chmodSync e file (mode st OR octal [1,1,1]) w1 of
             (Inl err, w2) \<Rightarrow>
               console_error
                 [Str (js ''Failed to set executable permissions for: '' @ file), ErrObj err] w2
           | (Inr u, w2) \<Rightarrow>
               console_log [Str (js ''Set executable permissions for: '' @ file)] w2))"

fun forEach :: "env \<Rightarrow> path list \<Rightarrow> world \<Rightarrow> world" where
  "forEach e [] w = w"
| "forEach e (file # rest) w = forEach e rest (set_executable_file e file w)"

definition set_executable :: "env \<Rightarrow> world \<Rightarrow> world" where
  "set_executable e w = forEach e (files e) w"

text \<open>
  Notation for the calls one file leaves in the trace on the file system \<open>f\<close>: when
  \<^verbatim>\<open>stat\<close> fails, the \<^verbatim>\<open>statSync\<close> call and one \<^verbatim>\<open>console.error\<close> with the path and the
  error; when \<^verbatim>\<open>chmod\<close> fails, the \<^verbatim>\<open>statSync\<close> and \<^verbatim>\<open>chmodSync\<close> calls and one
  \<^verbatim>\<open>console.error\<close> with the path and the error; otherwise the two calls and one
  \<^verbatim>\<open>console.log\<close>. And for the mode a successful \<^verbatim>\<open>chmod\<close> leaves on a file of mode \<open>m\<close>.
\<close>

abbreviation file_events :: "env \<Rightarrow> filesystem \<Rightarrow> path \<Rightarrow> event list" where
  "file_events e f file \<equiv>
     (case os_stat e file f of
        Inl err \<Rightarrow>
          [StatSync file,
           ConsoleError [Str (js ''Failed to set executable permissions for: '' @ file),
                         ErrObj err]]
      | Inr m \<Rightarrow>
          (case os_chmod e file (m OR octal [1,1,1]) f of
             Inl err \<Rightarrow>
               [StatSync file,
                ChmodSync file (m OR octal [1,1,1]),
                ConsoleError [Str (js ''Failed to set executable permissions for: '' @ file),
                              ErrObj err]]
           | Inr f' \<Rightarrow>
               [StatSync file,
                ChmodSync file (m OR octal [1,1,1]),
                ConsoleLog [Str (js ''Set executable permissions for: '' @ file)]]))"

abbreviation exec_mode :: "env \<Rightarrow> path \<Rightarrow> mode \<Rightarrow> mode" where
  "exec_mode e p m \<equiv>
     (if chmod_clears_setgid e p
      then (m OR octal [1,1,1]) AND NOT (octal [2,0,0,0])
      else m OR octal [1,1,1])"

section \<open>\<^verbatim>\<open>scripts/package-and-install.js\<close>\<close>

text \<open>The template literal handed to the second \<^verbatim>\<open>execSync\<close>.\<close>

definition install_command :: "env \<Rightarrow> path \<Rightarrow> jsstring" where
  "install_command e tgzFile = js ''npm install -g '' @ path_join e [cwd e, tgzFile]"

text \<open>
  The \<^verbatim>\<open>try\<close> block. \<open>Inl\<close> is the exception that leaves the block, with the world as it
  is at the throw; \<open>Inr\<close> is normal completion.
\<close>

definition try_block :: "env \<Rightarrow> world \<Rightarrow> (error + unit) \<times> world" where
  "try_block e w0 =
     (let w1 = console_log [Str (js ''Packing the project...'')] w0 in
      case execSync e (js ''npm pack'') w1 of
        (Inl err, w2) \<Rightarrow> (Inl err, w2)
      | (Inr output, w2) \<Rightarrow>
          (let tgzFile = trim output in
           case existsSync tgzFile w2 of
             (False, w3) \<Rightarrow>
               (Inl (Error (js ''Failed to create .tgz file: '' @ tgzFile)), w3)
           | (True, w3) \<Rightarrow>
               (let w4 = console_log [Str (js ''Package created: '' @ tgzFile)] w3;
                    w5 = console_log [Str (js ''Installing the package globally...'')] w4 in
                case execSync e (install_command e tgzFile) w5 of
                  (Inl err, w6) \<Rightarrow> (Inl err, w6)
                | (Inr ignored, w6) \<Rightarrow>
                    (let w7 = console_log
                                [Str (js ''Package installed globally successfully!'')] w6;
                         w8 = console_log [Str (js ''Cleaning up...'')] w7 in
                     case unlinkSync e tgzFile w8 of
                       (Inl err, w9) \<Rightarrow> (Inl err, w9)
                     | (Inr u, w9) \<Rightarrow>
                         (Inr (),
                          console_log [Str (js ''Temporary package file removed.'')] w9)))))"

text \<open>
  The whole script: the \<^verbatim>\<open>catch\<close> clause logs the message and calls \<^verbatim>\<open>process.exit(1)\<close>; a
  script that runs to its end exits with status 0. The result is the exit status and the
  final world.
\<close>

definition package_and_install :: "env \<Rightarrow> world \<Rightarrow> nat \<times> world" where
  "package_and_install e w0 =
     (case try_block e w0 of
        (Inl err, w) \<Rightarrow>
          (1, console_error [Str (js ''An error occurred:''), Str (message err)] w)
      | (Inr u, w) \<Rightarrow> (0, w))"

text \<open>
  Notation for the calls the script makes, in order, up to and including the install
  command, and up to and including the \<^verbatim>\<open>unlinkSync\<close> call.
\<close>

abbreviation events_until_install :: "env \<Rightarrow> path \<Rightarrow> event list" where
  "events_until_install e tgzFile \<equiv>
     [ConsoleLog [Str (js ''Packing the project...'')],
      ExecSync (js ''npm pack''),
      ExistsSync tgzFile,
      ConsoleLog [Str (js ''Package created: '' @ tgzFile)],
      ConsoleLog [Str (js ''Installing the package globally...'')],
      ExecSync (js ''npm install -g '' @ path_join e [cwd e, tgzFile])]"

abbreviation events_until_unlink :: "env \<Rightarrow> path \<Rightarrow> event list" where
  "events_until_unlink e tgzFile \<equiv>
     events_until_install e tgzFile @
     [ConsoleLog [Str (js ''Package installed globally successfully!'')],
      ConsoleLog [Str (js ''Cleaning up...'')],
      UnlinkSync tgzFile]"

section \<open>Test doubles\<close>

text \<open>
  Concrete environments on which the theorems below are instantiated: a \<^verbatim>\<open>path.join\<close>
  that puts a slash between its arguments, and a command runner whose \<^verbatim>\<open>npm pack\<close> answers
  \<open>pack_result\<close> (writing the archive \<^verbatim>\<open>pkg-1.0.0.tgz\<close> when \<open>creates\<close> holds) and whose
  other commands answer \<open>install_result\<close> (removing that archive when \<open>removes\<close> holds).
\<close>

definition join_slash :: "path list \<Rightarrow> path" where
  "join_slash ps = (case ps of [] \<Rightarrow> js ''.'' | p # qs \<Rightarrow> foldl (\<lambda>a b. a @ js ''/'' @ b) p qs)"

definition fake_npm ::
  "(error + jsstring) \<Rightarrow> bool \<Rightarrow> (error + jsstring) \<Rightarrow> bool \<Rightarrow>
   jsstring \<Rightarrow> filesystem \<Rightarrow> (error + jsstring) \<times> filesystem" where
  "fake_npm pack_result creates install_result removes cmd f =
     (if cmd = js ''npm pack''
      then (pack_result, if creates then f(js ''pkg-1.0.0.tgz'' \<mapsto> octal [1,0,0,6,4,4]) else f)
      else (install_result, if removes then f(js ''pkg-1.0.0.tgz'' := None) else f))"

definition fake_env ::
  "(error + jsstring) \<Rightarrow> bool \<Rightarrow> (error + jsstring) \<Rightarrow> bool \<Rightarrow> env" where
  "fake_env pack_result creates install_result removes =
     \<lparr>cwd = js ''/work'', path_join = join_slash,
      run_command = fake_npm pack_result creates install_result removes,
      stat_fault = (\<lambda>p. None), chmod_fault = (\<lambda>p. None),
      chmod_clears_setgid = (\<lambda>p. False), unlink_fault = (\<lambda>p. None)\<rparr>"

definition pack_output :: jsstring where
  "pack_output = js ''pkg-1.0.0.tgz'' @ [10]"

definition env_ok :: env where
  "env_ok = fake_env (Inr pack_output) True (Inr []) False"

definition env_pack_fails :: env where
  "env_pack_fails = fake_env (Inl (Error (js ''Command failed: npm pack''))) False (Inr []) False"

definition env_no_archive :: env where
  "env_no_archive = fake_env (Inr pack_output) False (Inr []) False"

definition env_install_fails :: env where
  "env_install_fails =
     fake_env (Inr pack_output) True (Inl (Error (js ''Command failed: npm install''))) False"

definition env_install_removes :: env where
  "env_install_removes = fake_env (Inr pack_output) True (Inr []) True"

text \<open>
  An \<^verbatim>\<open>npm pack\<close> whose output names the directory \<^verbatim>\<open>dist\<close>; a parent directory in which
  the process may not unlink; a process that does not own the files; a process outside
  the group of the files.
\<close>

definition env_dir :: env where
  "env_dir = fake_env (Inr (js ''dist'' @ [10])) False (Inr []) False"

definition env_unlink_denied :: env where
  "env_unlink_denied = env_ok\<lparr>unlink_fault := (\<lambda>p. Some (eacces ''unlink'' p))\<rparr>"

definition env_not_owner :: env where
  "env_not_owner = env_ok\<lparr>chmod_fault := (\<lambda>p. Some (eperm ''chmod'' p))\<rparr>"

definition env_other_group :: env where
  "env_other_group = env_ok\<lparr>chmod_clears_setgid := (\<lambda>p. True)\<rparr>"

definition dir_world :: world where
  "dir_world = \<lparr>fs = [js ''dist'' \<mapsto> octal [0,4,0,7,5,5]], trace = []\<rparr>"

definition setgid_world :: world where
  "setgid_world = \<lparr>fs = [js ''a.js'' \<mapsto> octal [1,0,2,6,4,4]], trace = []\<rparr>"

definition empty_world :: world where
  "empty_world = \<lparr>fs = Map.empty, trace = []\<rparr>"

definition scripts_world :: world where
  "scripts_world =
     \<lparr>fs = [js ''bin/task-master.js'' \<mapsto> octal [1,0,0,6,4,4]], trace = []\<rparr>"

text \<open>The scenario of two files \<^verbatim>\<open>a.js\<close> and \<^verbatim>\<open>b.js\<close>, both with mode \<^verbatim>\<open>0644\<close>.\<close>

definition scenario_world :: world where
  "scenario_world =
     \<lparr>fs = [js ''a.js'' \<mapsto> octal [6,4,4], js ''b.js'' \<mapsto> octal [6,4,4]], trace = []\<rparr>"

section \<open>Properties of \<^verbatim>\<open>set-executable.js\<close>\<close>

subsection \<open>Mode bits\<close>

lemma octal_111: "octal [1,1,1] = 73"
  by (simp add: octal_def)

lemma octal_170000: "octal [1,7,0,0,0,0] = 61440"
  by (simp add: octal_def)

lemma octal_7777: "octal [7,7,7,7] = 4095"
  by (simp add: octal_def)

lemma chmod_keeps_type_bits:
  "(m AND octal [1,7,0,0,0,0]) OR ((m OR octal [1,1,1]) AND octal [7,7,7,7]) = m OR octal [1,1,1]"
proof -
  have a: "(m OR 73) AND 4095 = (m AND 4095) OR (73 AND (4095 :: mode))"
    by (rule bit.conj_disj_distrib2)
  have b: "(73 :: mode) AND 4095 = 73"
    by simp
  have c: "61440 OR 4095 = (- 1 :: mode)"
    by simp
  have "(m AND 61440) OR (m AND 4095) = m AND (61440 OR 4095)"
    by (rule bit.conj_disj_distrib [symmetric])
  then have d: "(m AND 61440) OR (m AND 4095) = m"
    unfolding c by simp
  have "(m AND 61440) OR ((m OR 73) AND 4095) = ((m AND 61440) OR (m AND 4095)) OR 73"
    unfolding a b by (simp add: or.assoc)
  then show ?thesis
    unfolding d octal_111 octal_170000 octal_7777 .
qed

lemma chmod_clears_only_setgid:
  "(m AND octal [1,7,0,0,0,0]) OR
   (((m OR octal [1,1,1]) AND octal [7,7,7,7]) AND NOT (octal [2,0,0,0])) =
   (m OR octal [1,1,1]) AND NOT (octal [2,0,0,0])"
proof -
  let ?x = "m OR octal [1,1,1]"
  have t: "octal [1,7,0,0,0,0] AND NOT (octal [2,0,0,0]) = octal [1,7,0,0,0,0]"
    by (simp add: octal_def)
  have "?x AND NOT (octal [2,0,0,0]) =
        ((m AND octal [1,7,0,0,0,0]) OR (?x AND octal [7,7,7,7])) AND NOT (octal [2,0,0,0])"
    by (simp only: chmod_keeps_type_bits)
  also have "\<dots> = ((m AND octal [1,7,0,0,0,0]) AND NOT (octal [2,0,0,0])) OR
                   ((?x AND octal [7,7,7,7]) AND NOT (octal [2,0,0,0]))"
    by (rule bit.conj_disj_distrib2)
  also have "(m AND octal [1,7,0,0,0,0]) AND NOT (octal [2,0,0,0]) = m AND octal [1,7,0,0,0,0]"
    by (simp only: and.assoc t)
  finally show ?thesis
    by simp
qed

lemma chmod_mode_exec: "chmod_mode e p m (m OR octal [1,1,1]) = exec_mode e p m"
  by (simp add: chmod_mode_def chmod_keeps_type_bits chmod_clears_only_setgid)

lemma or_and_not_idem:
  fixes m a b :: mode
  shows "(((m OR a) AND NOT b) OR a) AND NOT b = (m OR a) AND NOT b"
  by (auto simp add: bit_eq_iff bit_and_iff bit_or_iff bit_not_iff)

lemma exec_mode_bits_set: "exec_mode e p m AND octal [1,1,1] = octal [1,1,1]"
proof -
  have a: "NOT (octal [2,0,0,0]) AND octal [1,1,1] = octal [1,1,1]"
    by (simp add: octal_def)
  show ?thesis
    by (simp add: and.assoc a)
qed

lemma or_and_not_frame:
  fixes m a b :: mode
  shows "(m OR a) AND NOT (a OR b) = m AND NOT (a OR b)"
    and "((m OR a) AND NOT b) AND NOT (a OR b) = m AND NOT (a OR b)"
  by (auto simp add: bit_eq_iff bit_and_iff bit_or_iff bit_not_iff)

lemma exec_mode_frame:
  "exec_mode e p m AND NOT (octal [1,1,1] OR octal [2,0,0,0]) =
   m AND NOT (octal [1,1,1] OR octal [2,0,0,0])"
  by (simp only: or_and_not_frame if_distrib [of "\<lambda>x. x AND NOT (octal [1,1,1] OR octal [2,0,0,0])"] if_cancel)

lemma fs_set_executable_file:
  "fs (set_executable_file e file w) p =
     (if p = file \<and> stat_fault e p = None \<and> chmod_fault e p = None
      then map_option (exec_mode e p) (fs w p) else fs w p)"
  by (auto simp add: set_executable_file_def statSync_def chmodSync_def os_stat_def
      os_chmod_def console_error_def console_log_def emit_def chmod_mode_exec Let_def
      split: option.split)

lemma fs_forEach:
  "fs (forEach e ps w) p =
     (if p \<in> set ps \<and> stat_fault e p = None \<and> chmod_fault e p = None
      then map_option (exec_mode e p) (fs w p) else fs w p)"
proof (induction ps arbitrary: w)
  case Nil
  show ?case by simp
next
  case (Cons q qs)
  show ?case
    by (cases "fs w p") (auto simp add: Cons.IH fs_set_executable_file or_and_not_idem or.assoc)
qed

lemma trace_set_executable_file:
  "trace (set_executable_file e file w) = trace w @ file_events e (fs w) file"
  by (simp add: set_executable_file_def statSync_def chmodSync_def console_error_def
      console_log_def emit_def Let_def split: sum.split)

lemma forEach_append: "forEach e (ps @ qs) w = forEach e qs (forEach e ps w)"
  by (induction ps arbitrary: w) simp_all

lemma stat_events_file:
  "[q. StatSync q \<leftarrow> file_events e f file] = [file]"
  by (simp split: sum.split)

lemma trace_forEach_extends:
  "\<exists>evs. trace (forEach e ps w) = trace w @ evs \<and> [q. StatSync q \<leftarrow> evs] = ps"
proof (induction ps arbitrary: w)
  case Nil
  show ?case by simp
next
  case (Cons p ps)
  from Cons.IH [of "set_executable_file e p w"] obtain evs where
    evs: "trace (forEach e ps (set_executable_file e p w)) =
            trace (set_executable_file e p w) @ evs"
      "[q. StatSync q \<leftarrow> evs] = ps"
    by blast
  have "trace (forEach e (p # ps) w) = trace w @ (file_events e (fs w) p @ evs)"
    by (simp add: evs(1) trace_set_executable_file)
  moreover have "[q. StatSync q \<leftarrow> file_events e (fs w) p @ evs] = p # ps"
    using evs(2) by (simp only: map_append concat_append stat_events_file append_Cons append_Nil)
  ultimately show ?case
    by blast
qed

lemma and_not_disjoint:
  fixes x b :: mode
  assumes "x AND b = 0"
  shows "x AND NOT b = x"
proof -
  have "x = x AND (b OR NOT b)"
    by simp
  also have "\<dots> = (x AND b) OR (x AND NOT b)"
    by (rule bit.conj_disj_distrib)
  finally show ?thesis
    using assms by simp
qed

lemma exec_mode_no_setgid:
  assumes "m AND octal [2,0,0,0] = 0"
  shows "(m OR octal [1,1,1]) AND NOT (octal [2,0,0,0]) = m OR octal [1,1,1]"
proof -
  have "octal [1,1,1] AND octal [2,0,0,0] = 0"
    by (simp add: octal_def)
  with assms have "(m OR octal [1,1,1]) AND octal [2,0,0,0] = 0"
    by (simp add: bit.conj_disj_distrib2)
  then show ?thesis
    by (rule and_not_disjoint)
qed

lemma or_frame:
  fixes m a :: mode
  shows "(m OR a) AND NOT a = m AND NOT a" and "(m OR a) AND m = m"
  by (auto simp add: bit_eq_iff bit_and_iff bit_or_iff bit_not_iff)

lemma scenario_files:
  "files env_ok = [js ''bin/task-master.js'', js ''mcp-server/server.js'']"
  "files env_not_owner = [js ''bin/task-master.js'', js ''mcp-server/server.js'']"
  by (simp_all add: files_def env_not_owner_def env_ok_def fake_env_def join_slash_def js_def)

lemma env_faults:
  "stat_fault env_ok p = None" "chmod_fault env_ok p = None"
  "\<not> chmod_clears_setgid env_ok p" "unlink_fault env_ok p = None"
  "stat_fault env_not_owner p = None" "chmod_fault env_not_owner p = Some (eperm ''chmod'' p)"
  "stat_fault env_other_group p = None" "chmod_fault env_other_group p = None"
  "chmod_clears_setgid env_other_group p"
  by (simp_all add: env_ok_def env_not_owner_def env_other_group_def fake_env_def)

subsection \<open>The claims\<close>

text \<open>
  Claim C5, as amended. Every path of the list that exists with mode \<open>m\<close> before the run,
  and on which neither \<^verbatim>\<open>statSync\<close> nor \<^verbatim>\<open>chmodSync\<close> throws, has all three execute bits set
  after the run: its mode is \<open>m OR 0o111\<close>, less the set-group-ID bit where the kernel
  clears it, and exactly \<open>m OR 0o111\<close> where it does not or the file has no such bit. A
  file with mode \<^verbatim>\<open>0644\<close> ends with mode \<^verbatim>\<open>0755\<close>. The script is \<open>forEach e (files e)\<close>;
  the statement holds for every path list.
\<close>

theorem set_executable_sets_execute_bits:
  assumes "p \<in> set ps" and "fs w p = Some m"
    and "stat_fault e p = None" and "chmod_fault e p = None"
  shows "fs (forEach e ps w) p = Some (exec_mode e p m) \<and>
         exec_mode e p m AND octal [1,1,1] = octal [1,1,1] \<and>
         ((chmod_clears_setgid e p \<longrightarrow> m AND octal [2,0,0,0] = 0) \<longrightarrow>
            fs (forEach e ps w) p = Some (m OR octal [1,1,1])) \<and>
         exec_mode e p (octal [6,4,4]) = octal [7,5,5]"
proof -
  have "exec_mode e p (octal [6,4,4]) = octal [7,5,5]"
    by (simp add: octal_def)
  moreover have "exec_mode e p m = m OR octal [1,1,1]"
    if "chmod_clears_setgid e p \<longrightarrow> m AND octal [2,0,0,0] = 0"
    using that by (simp add: exec_mode_no_setgid)
  moreover have "fs (forEach e ps w) p = Some (exec_mode e p m)"
    using assms by (simp add: fs_forEach)
  ultimately show ?thesis
    using exec_mode_bits_set [of e p m] by simp
qed

theorem set_executable_sets_execute_bits_witness:
  "js ''a.js'' \<in> set [js ''a.js'', js ''b.js''] \<and>
   fs scenario_world (js ''a.js'') = Some (octal [6,4,4]) \<and>
   stat_fault env_ok (js ''a.js'') = None \<and> chmod_fault env_ok (js ''a.js'') = None \<and>
   fs (forEach env_ok [js ''a.js'', js ''b.js''] scenario_world) (js ''a.js'') =
     Some (octal [7,5,5])"
proof -
  have a: "js ''a.js'' \<in> set [js ''a.js'', js ''b.js'']"
    by simp
  have b: "fs scenario_world (js ''a.js'') = Some (octal [6,4,4])"
    by (simp add: scenario_world_def js_def)
  have c: "octal [6,4,4] OR octal [1,1,1] = octal [7,5,5]"
    by (simp add: octal_def)
  show ?thesis
    using set_executable_sets_execute_bits [OF a b env_faults(1) env_faults(2)] a b
    by (simp add: env_faults c)
qed

text \<open>
  Claim C5 as it was stated, for every path that exists, fails: a file of mode \<^verbatim>\<open>0644\<close>
  that the process does not own is found by \<^verbatim>\<open>statSync\<close>, \<^verbatim>\<open>chmodSync\<close> throws \<^verbatim>\<open>EPERM\<close>,
  the \<^verbatim>\<open>catch\<close> clause logs it, and the mode is still \<^verbatim>\<open>0644\<close>, with no execute bit.
\<close>

theorem mode_unchanged_when_chmod_throws:
  "js ''a.js'' \<in> set [js ''a.js'', js ''b.js''] \<and>
   fs scenario_world (js ''a.js'') = Some (octal [6,4,4]) \<and>
   fs (forEach env_not_owner [js ''a.js'', js ''b.js''] scenario_world) (js ''a.js'') =
     Some (octal [6,4,4]) \<and>
   octal [6,4,4] \<noteq> octal [6,4,4] OR octal [1,1,1] \<and>
   octal [6,4,4] AND octal [1,1,1] \<noteq> octal [1,1,1]"
proof -
  have b: "fs scenario_world (js ''a.js'') = Some (octal [6,4,4])"
    by (simp add: scenario_world_def js_def)
  have c: "octal [6,4,4] \<noteq> octal [6,4,4] OR octal [1,1,1]"
    "octal [6,4,4] AND octal [1,1,1] \<noteq> octal [1,1,1]"
    by (simp_all add: octal_def)
  show ?thesis
    using b c by (simp add: fs_forEach env_faults del: forEach.simps)
qed

text \<open>
  Claim C6. A path whose \<^verbatim>\<open>statSync\<close> or \<^verbatim>\<open>chmodSync\<close> throws is caught inside the callback
  and logged with that path, and the loop goes on. For every path list and every path
  \<open>file\<close> in it, whatever happened to the paths \<open>pre\<close> before it: the run appends the
  events of \<open>file\<close> (for a failing \<^verbatim>\<open>stat\<close> or \<^verbatim>\<open>chmod\<close> the calls made and one
  \<^verbatim>\<open>console.error\<close> naming the path and carrying the error thrown), and then runs the
  loop on the paths \<open>post\<close> after it. Every run calls \<^verbatim>\<open>statSync\<close> once on each path of the
  list, in the order of the list, and the mode of a path is changed exactly when it is in
  the list and neither call throws on it.
\<close>

theorem set_executable_isolates_failures:
  "trace (forEach e (pre @ [file]) w) =
     trace (forEach e pre w) @ file_events e (fs (forEach e pre w)) file \<and>
   forEach e (pre @ file # post) w = forEach e post (forEach e (pre @ [file]) w) \<and>
   (\<exists>evs. trace (forEach e ps w) = trace w @ evs \<and> [q. StatSync q \<leftarrow> evs] = ps) \<and>
   fs (forEach e ps w) p =
     (if p \<in> set ps \<and> stat_fault e p = None \<and> chmod_fault e p = None
      then map_option (exec_mode e p) (fs w p) else fs w p)"
proof -
  have "trace (forEach e (pre @ [file]) w) =
     trace (forEach e pre w) @ file_events e (fs (forEach e pre w)) file"
    by (simp only: forEach_append forEach.simps trace_set_executable_file)
  moreover have "forEach e (pre @ file # post) w = forEach e post (forEach e (pre @ [file]) w)"
    by (simp only: forEach_append forEach.simps)
  ultimately show ?thesis
    using trace_forEach_extends [of e ps w] fs_forEach [of e ps w p]
    by blast
qed

theorem set_executable_isolates_failures_witness:
  "trace (set_executable env_not_owner scripts_world) =
     [StatSync (js ''bin/task-master.js''),
      ChmodSync (js ''bin/task-master.js'') (octal [1,0,0,7,5,5]),
      ConsoleError
        [Str (js ''Failed to set executable permissions for: bin/task-master.js''),
         ErrObj (eperm ''chmod'' (js ''bin/task-master.js''))],
      StatSync (js ''mcp-server/server.js''),
      ConsoleError
        [Str (js ''Failed to set executable permissions for: mcp-server/server.js''),
         ErrObj (enoent ''stat'' (js ''mcp-server/server.js''))]] \<and>
   fs (set_executable env_not_owner scripts_world) = fs scripts_world"
proof -
  have a: "fs scripts_world (js ''bin/task-master.js'') = Some (octal [1,0,0,6,4,4])"
    by (simp add: scripts_world_def)
  have b: "fs scripts_world (js ''mcp-server/server.js'') = None"
    by (simp add: scripts_world_def js_def)
  have c: "trace scripts_world = []"
    by (simp add: scripts_world_def)
  have d: "js ''Failed to set executable permissions for: '' @ js ''bin/task-master.js'' =
           js ''Failed to set executable permissions for: bin/task-master.js''"
    by (simp add: js_def)
  have e: "js ''Failed to set executable permissions for: '' @ js ''mcp-server/server.js'' =
           js ''Failed to set executable permissions for: mcp-server/server.js''"
    by (simp add: js_def)
  have f: "octal [1,0,0,6,4,4] OR octal [1,1,1] = octal [1,0,0,7,5,5]"
    by (simp add: octal_def)
  have g: "fs (forEach env_not_owner qs scripts_world) = fs scripts_world" for qs
    by (rule ext) (simp add: fs_forEach env_faults del: forEach.simps)
  have h1: "trace (forEach env_not_owner [js ''bin/task-master.js''] scripts_world) =
     [StatSync (js ''bin/task-master.js''),
      ChmodSync (js ''bin/task-master.js'') (octal [1,0,0,7,5,5]),
      ConsoleError
        [Str (js ''Failed to set executable permissions for: bin/task-master.js''),
         ErrObj (eperm ''chmod'' (js ''bin/task-master.js''))]]"
    by (simp add: trace_set_executable_file os_stat_def os_chmod_def env_faults a c d f)
  have h2: "file_events env_not_owner scripts_fs (js ''mcp-server/server.js'') =
     [StatSync (js ''mcp-server/server.js''),
      ConsoleError
        [Str (js ''Failed to set executable permissions for: mcp-server/server.js''),
         ErrObj (enoent ''stat'' (js ''mcp-server/server.js''))]]"
    if "scripts_fs = fs scripts_world" for scripts_fs
    by (simp add: that os_stat_def env_faults b e)
  have "trace (forEach env_not_owner ([js ''bin/task-master.js''] @ [js ''mcp-server/server.js''])
          scripts_world) =
        trace (forEach env_not_owner [js ''bin/task-master.js''] scripts_world) @
        file_events env_not_owner (fs (forEach env_not_owner [js ''bin/task-master.js'']
          scripts_world)) (js ''mcp-server/server.js'')"
    using set_executable_isolates_failures
      [of env_not_owner "[js ''bin/task-master.js'']" "js ''mcp-server/server.js''"
          scripts_world "[]" "[]" "[]"]
    by (rule conjunct1)
  then have "trace (forEach env_not_owner (files env_not_owner) scripts_world) =
     [StatSync (js ''bin/task-master.js''),
      ChmodSync (js ''bin/task-master.js'') (octal [1,0,0,7,5,5]),
      ConsoleError
        [Str (js ''Failed to set executable permissions for: bin/task-master.js''),
         ErrObj (eperm ''chmod'' (js ''bin/task-master.js''))],
      StatSync (js ''mcp-server/server.js''),
      ConsoleError
        [Str (js ''Failed to set executable permissions for: mcp-server/server.js''),
         ErrObj (enoent ''stat'' (js ''mcp-server/server.js''))]]"
    unfolding h1 h2 [OF g] scenario_files by simp
  then show ?thesis
    by (simp only: set_executable_def g simp_thms)
qed

text \<open>
  Claim C9, as amended. For every existing path of the list, the run leaves every mode
  bit outside the three execute bits and the set-group-ID bit as it was; the new mode is
  the old one (when a call throws), the old one ORed with \<^verbatim>\<open>0o111\<close>, or that without the
  set-group-ID bit. Where the kernel does not clear that bit, or the file does not have
  it, every bit outside \<^verbatim>\<open>0o111\<close> is as it was and every bit of the old mode is still
  set.
\<close>

theorem set_executable_frame:
  assumes "p \<in> set ps" and "fs w p = Some m"
  shows "\<exists>m'. fs (forEach e ps w) p = Some m' \<and>
           m' AND NOT (octal [1,1,1] OR octal [2,0,0,0]) =
             m AND NOT (octal [1,1,1] OR octal [2,0,0,0]) \<and>
           (m' = m \<or> m' = m OR octal [1,1,1] \<or>
            m' = (m OR octal [1,1,1]) AND NOT (octal [2,0,0,0])) \<and>
           ((chmod_clears_setgid e p \<longrightarrow> m AND octal [2,0,0,0] = 0) \<longrightarrow>
              (m' = m \<or> m' = m OR octal [1,1,1]) \<and>
              m' AND NOT (octal [1,1,1]) = m AND NOT (octal [1,1,1]) \<and>
              m' AND m = m)"
proof -
  let ?x = "octal [1,1,1]" and ?g = "octal [2,0,0,0]"
  obtain m' where m': "fs (forEach e ps w) p = Some m'"
    and cases: "m' = m \<or> m' = exec_mode e p m"
    using assms by (cases "stat_fault e p = None \<and> chmod_fault e p = None")
      (auto simp add: fs_forEach)
  have outside: "m' AND NOT (?x OR ?g) = m AND NOT (?x OR ?g)"
    using cases exec_mode_frame [of e p m] by auto
  have three: "m' = m \<or> m' = m OR ?x \<or> m' = (m OR ?x) AND NOT ?g"
    using cases by (cases "chmod_clears_setgid e p") auto
  have full: "(m' = m \<or> m' = m OR ?x) \<and> m' AND NOT ?x = m AND NOT ?x \<and> m' AND m = m"
    if "chmod_clears_setgid e p \<longrightarrow> m AND ?g = 0"
  proof -
    from that have "exec_mode e p m = m OR ?x"
      by (simp add: exec_mode_no_setgid)
    with cases have "m' = m \<or> m' = m OR ?x"
      by simp
    then show ?thesis
      using or_frame [of m ?x] by auto
  qed
  from m' outside three full show ?thesis
    by blast
qed

theorem set_executable_frame_witness:
  "js ''bin/task-master.js'' \<in> set (files env_ok) \<and>
   fs scripts_world (js ''bin/task-master.js'') = Some (octal [1,0,0,6,4,4]) \<and>
   (\<exists>m'. fs (set_executable env_ok scripts_world) (js ''bin/task-master.js'') = Some m' \<and>
      (m' = octal [1,0,0,6,4,4] \<or> m' = octal [1,0,0,6,4,4] OR octal [1,1,1]) \<and>
      m' AND NOT (octal [1,1,1]) = octal [1,0,0,6,4,4] AND NOT (octal [1,1,1]) \<and>
      m' AND octal [1,0,0,6,4,4] = octal [1,0,0,6,4,4])"
proof -
  have a: "js ''bin/task-master.js'' \<in> set (files env_ok)"
    by (simp add: scenario_files)
  have b: "fs scripts_world (js ''bin/task-master.js'') = Some (octal [1,0,0,6,4,4])"
    by (simp add: scripts_world_def)
  show ?thesis
    using set_executable_frame [OF a b, of env_ok] a b
    by (simp only: set_executable_def env_faults simp_thms) blast
qed

text \<open>
  Claim C9 as it was stated fails twice. For a process outside the group of a set-group-ID
  file, \<^verbatim>\<open>chmod\<close> succeeds and the kernel clears the bit \<^verbatim>\<open>0o2000\<close>, which is not an
  execute bit: mode \<^verbatim>\<open>0o102644\<close> becomes \<^verbatim>\<open>0o100755\<close>. And for a file the process does not
  own, \<^verbatim>\<open>chmodSync\<close> throws and the new mode is the old mode, not the old mode ORed with
  \<^verbatim>\<open>0o111\<close>.
\<close>

theorem mode_bits_changed_by_kernel_or_kept:
  "js ''a.js'' \<in> set [js ''a.js''] \<and>
   fs setgid_world (js ''a.js'') = Some (octal [1,0,2,6,4,4]) \<and>
   fs (forEach env_other_group [js ''a.js''] setgid_world) (js ''a.js'') =
     Some (octal [1,0,0,7,5,5]) \<and>
   octal [1,0,0,7,5,5] AND NOT (octal [1,1,1]) \<noteq> octal [1,0,2,6,4,4] AND NOT (octal [1,1,1]) \<and>
   octal [1,0,0,7,5,5] \<noteq> octal [1,0,2,6,4,4] OR octal [1,1,1] \<and>
   js ''bin/task-master.js'' \<in> set (files env_not_owner) \<and>
   fs scripts_world (js ''bin/task-master.js'') = Some (octal [1,0,0,6,4,4]) \<and>
   fs (set_executable env_not_owner scripts_world) (js ''bin/task-master.js'') =
     Some (octal [1,0,0,6,4,4]) \<and>
   octal [1,0,0,6,4,4] \<noteq> octal [1,0,0,6,4,4] OR octal [1,1,1]"
proof -
  have a: "fs setgid_world (js ''a.js'') = Some (octal [1,0,2,6,4,4])"
    by (simp add: setgid_world_def)
  have b: "(octal [1,0,2,6,4,4] OR octal [1,1,1]) AND NOT (octal [2,0,0,0]) =
      octal [1,0,0,7,5,5]"
    by (simp add: octal_def)
  have c: "octal [1,0,0,7,5,5] AND NOT (octal [1,1,1]) \<noteq>
      octal [1,0,2,6,4,4] AND NOT (octal [1,1,1])"
    "octal [1,0,0,7,5,5] \<noteq> octal [1,0,2,6,4,4] OR octal [1,1,1]"
    "octal [1,0,0,6,4,4] \<noteq> octal [1,0,0,6,4,4] OR octal [1,1,1]"
    by (simp_all add: octal_def)
  have d: "fs scripts_world (js ''bin/task-master.js'') = Some (octal [1,0,0,6,4,4])"
    by (simp add: scripts_world_def)
  show ?thesis
    using a b c d
    by (simp add: fs_forEach env_faults set_executable_def scenario_files
        del: forEach.simps)
qed


section \<open>Properties of \<^verbatim>\<open>package-and-install.js\<close>\<close>

subsection \<open>The five ways a run can go\<close>

text \<open>
  The script has no loop: a run is decided by the result of \<^verbatim>\<open>npm pack\<close>, by whether the
  trimmed output names a file, by the result of the install command, and by the result
  of \<^verbatim>\<open>unlink\<close>. Each lemma gives the exit status and the final world of one of the five
  cases.
\<close>

lemmas script_defs =
  package_and_install_def try_block_def execSync_def existsSync_def unlinkSync_def
  console_log_def console_error_def emit_def Let_def

lemma run_pack_fails:
  assumes "run_command e (js ''npm pack'') (fs w) = (Inl err, f1)"
  shows "package_and_install e w =
    (1, \<lparr>fs = f1, trace = trace w @
         [ConsoleLog [Str (js ''Packing the project...'')],
          ExecSync (js ''npm pack''),
          ConsoleError [Str (js ''An error occurred:''), Str (message err)]]\<rparr>)"
  using assms by (simp add: script_defs)

lemma run_archive_missing:
  assumes "run_command e (js ''npm pack'') (fs w) = (Inr out, f1)"
    and "f1 (trim out) = None"
  shows "package_and_install e w =
    (1, \<lparr>fs = f1, trace = trace w @
         [ConsoleLog [Str (js ''Packing the project...'')],
          ExecSync (js ''npm pack''),
          ExistsSync (trim out),
          ConsoleError [Str (js ''An error occurred:''),
                        Str (js ''Failed to create .tgz file: '' @ trim out)]]\<rparr>)"
  using assms by (simp add: script_defs)

lemma run_install_fails:
  assumes "run_command e (js ''npm pack'') (fs w) = (Inr out, f1)"
    and "f1 (trim out) = Some m"
    and "run_command e (install_command e (trim out)) f1 = (Inl err, f2)"
  shows "package_and_install e w =
    (1, \<lparr>fs = f2, trace = trace w @ events_until_install e (trim out) @
         [ConsoleError [Str (js ''An error occurred:''), Str (message err)]]\<rparr>)"
  using assms by (simp add: script_defs install_command_def)

lemma run_unlink_fails:
  assumes "run_command e (js ''npm pack'') (fs w) = (Inr out, f1)"
    and "f1 (trim out) = Some m"
    and "run_command e (install_command e (trim out)) f1 = (Inr out2, f2)"
    and "os_unlink e (trim out) f2 = Inl err"
  shows "package_and_install e w =
    (1, \<lparr>fs = f2, trace = trace w @ events_until_unlink e (trim out) @
         [ConsoleError [Str (js ''An error occurred:''), Str (message err)]]\<rparr>)"
  using assms by (simp add: script_defs install_command_def)

lemma run_success:
  assumes "run_command e (js ''npm pack'') (fs w) = (Inr out, f1)"
    and "f1 (trim out) = Some m"
    and "run_command e (install_command e (trim out)) f1 = (Inr out2, f2)"
    and "os_unlink e (trim out) f2 = Inr f3"
  shows "package_and_install e w =
    (0, \<lparr>fs = f3, trace = trace w @ events_until_unlink e (trim out) @
         [ConsoleLog [Str (js ''Temporary package file removed.'')]]\<rparr>)"
  using assms by (simp add: script_defs install_command_def)

lemma os_unlink_removes:
  assumes "os_unlink e p f = Inr f'"
  shows "f' = f(p := None)"
  using assms by (simp add: os_unlink_def split: option.splits if_splits)

lemma install_command_not_pack: "js ''npm install -g '' @ t \<noteq> js ''npm pack''"
  by (simp add: js_def)

subsection \<open>\<^verbatim>\<open>trim\<close>\<close>

lemma trim_decompose:
  "\<exists>pre suf. s = pre @ trim s @ suf \<and> (\<forall>c\<in>set pre. is_ws c) \<and> (\<forall>c\<in>set suf. is_ws c)"
proof -
  let ?pre = "takeWhile is_ws s"
  let ?rest = "dropWhile is_ws s"
  let ?suf = "rev (takeWhile is_ws (rev ?rest))"
  have "rev (takeWhile is_ws (rev ?rest) @ dropWhile is_ws (rev ?rest)) = ?rest"
    by (simp only: takeWhile_dropWhile_id rev_rev_ident)
  then have rest: "?rest = trim s @ ?suf"
    by (simp only: rev_append trim_def)
  have "s = ?pre @ ?rest"
    by simp
  with rest have "s = ?pre @ trim s @ ?suf"
    by simp
  moreover have "\<forall>c\<in>set ?pre. is_ws c"
    by (auto dest: set_takeWhileD)
  moreover have "\<forall>c\<in>set ?suf. is_ws c"
    by (auto dest: set_takeWhileD)
  ultimately show ?thesis
    by blast
qed

lemma trim_last: "trim s \<noteq> [] \<Longrightarrow> \<not> is_ws (last (trim s))"
  by (simp add: trim_def last_rev hd_dropWhile)

lemma dropWhile_rev_hd:
  assumes "xs \<noteq> []" and "\<not> P (hd xs)"
  shows "hd (rev (dropWhile P (rev xs))) = hd xs"
proof -
  from assms obtain x ys where xs: "xs = x # ys" and nP: "\<not> P x"
    by (cases xs) auto
  have "dropWhile P (rev ys @ [x]) = dropWhile P (rev ys) @ [x]"
    using nP by (simp add: dropWhile_append)
  then show ?thesis
    by (simp add: xs)
qed

lemma trim_hd: "trim s \<noteq> [] \<Longrightarrow> \<not> is_ws (hd (trim s))"
proof -
  assume ne: "trim s \<noteq> []"
  let ?rest = "dropWhile is_ws s"
  have "?rest = [] \<Longrightarrow> trim s = []"
    by (simp only: trim_def rev.simps dropWhile.simps)
  with ne have rest_ne: "?rest \<noteq> []"
    by blast
  then have nws: "\<not> is_ws (hd ?rest)"
    by (rule hd_dropWhile)
  from dropWhile_rev_hd [of ?rest is_ws, OF rest_ne nws] have "hd (trim s) = hd ?rest"
    by (simp add: trim_def)
  with nws show ?thesis
    by simp
qed

subsection \<open>The test doubles\<close>

lemma trim_pack_output: "trim pack_output = js ''pkg-1.0.0.tgz''"
  by (simp add: trim_def pack_output_def js_def is_ws_def)

lemma fake_pack:
  "run_command (fake_env pr c ir rm) (js ''npm pack'') f =
     (pr, if c then f(js ''pkg-1.0.0.tgz'' \<mapsto> octal [1,0,0,6,4,4]) else f)"
  by (simp add: fake_env_def fake_npm_def)

lemma fake_install:
  "run_command (fake_env pr c ir rm) (install_command e t) f =
     (ir, if rm then f(js ''pkg-1.0.0.tgz'' := None) else f)"
  by (simp add: fake_env_def fake_npm_def install_command_def install_command_not_pack)

lemma fake_install_command:
  "js ''npm install -g '' @ path_join (fake_env pr c ir rm) [cwd (fake_env pr c ir rm), js ''pkg-1.0.0.tgz'']
     = js ''npm install -g /work/pkg-1.0.0.tgz''"
  by (simp add: fake_env_def join_slash_def js_def)

lemma fake_unlink:
  "os_unlink (fake_env pr c ir rm) p f =
     (case f p of
        None \<Rightarrow> Inl (enoent ''unlink'' p)
      | Some m \<Rightarrow>
          if m AND octal [1,7,0,0,0,0] = octal [0,4,0,0,0,0]
          then Inl (eisdir ''unlink'' p)
          else Inr (f(p := None)))"
  by (simp add: os_unlink_def fake_env_def)

subsection \<open>The claims\<close>

text \<open>
  Claim C1, as amended. In every run in which \<^verbatim>\<open>npm pack\<close> succeeds, the existence check
  passes, the install command succeeds and \<^verbatim>\<open>unlinkSync\<close> does not throw, the run exits
  with status 0 and the archive does not exist afterwards: the final file system is the
  one the install command left, without the archive.
\<close>

theorem archive_removed_after_successful_install:
  assumes "run_command e (js ''npm pack'') (fs w) = (Inr out, f1)"
    and "f1 (trim out) = Some m"
    and "run_command e (install_command e (trim out)) f1 = (Inr out2, f2)"
    and "os_unlink e (trim out) f2 = Inr f3"
  shows "fst (package_and_install e w) = 0 \<and>
         fs (snd (package_and_install e w)) = f2(trim out := None) \<and>
         fs (snd (package_and_install e w)) (trim out) = None \<and>
         trace (snd (package_and_install e w)) =
           trace w @ events_until_unlink e (trim out) @
           [ConsoleLog [Str (js ''Temporary package file removed.'')]]"
  using os_unlink_removes [OF assms(4)] by (simp add: run_success [OF assms])

theorem archive_removed_after_successful_install_witness:
  "run_command env_ok (js ''npm pack'') (fs empty_world) =
     (Inr pack_output, [js ''pkg-1.0.0.tgz'' \<mapsto> octal [1,0,0,6,4,4]]) \<and>
   [js ''pkg-1.0.0.tgz'' \<mapsto> octal [1,0,0,6,4,4]] (trim pack_output) = Some (octal [1,0,0,6,4,4]) \<and>
   run_command env_ok (install_command env_ok (trim pack_output))
       [js ''pkg-1.0.0.tgz'' \<mapsto> octal [1,0,0,6,4,4]] =
     (Inr [], [js ''pkg-1.0.0.tgz'' \<mapsto> octal [1,0,0,6,4,4]]) \<and>
   os_unlink env_ok (trim pack_output) [js ''pkg-1.0.0.tgz'' \<mapsto> octal [1,0,0,6,4,4]] =
     Inr Map.empty \<and>
   fst (package_and_install env_ok empty_world) = 0 \<and>
   fs (snd (package_and_install env_ok empty_world)) = Map.empty \<and>
   fs (snd (package_and_install env_ok empty_world)) (js ''pkg-1.0.0.tgz'') = None"
proof -
  have pack: "run_command env_ok (js ''npm pack'') (fs empty_world) =
      (Inr pack_output, [js ''pkg-1.0.0.tgz'' \<mapsto> octal [1,0,0,6,4,4]])"
    by (simp add: env_ok_def fake_pack empty_world_def)
  have ex: "[js ''pkg-1.0.0.tgz'' \<mapsto> octal [1,0,0,6,4,4]] (trim pack_output) =
      Some (octal [1,0,0,6,4,4])"
    by (simp add: trim_pack_output)
  have inst: "run_command env_ok (install_command env_ok (trim pack_output))
       [js ''pkg-1.0.0.tgz'' \<mapsto> octal [1,0,0,6,4,4]] =
     (Inr [], [js ''pkg-1.0.0.tgz'' \<mapsto> octal [1,0,0,6,4,4]])"
    by (simp add: env_ok_def fake_install)
  have del: "os_unlink env_ok (trim pack_output)
       [js ''pkg-1.0.0.tgz'' \<mapsto> octal [1,0,0,6,4,4]] = Inr Map.empty"
    by (simp add: env_ok_def fake_unlink trim_pack_output octal_def)
  show ?thesis
    using archive_removed_after_successful_install [OF pack ex inst del] pack ex inst del
    by (simp add: trim_pack_output)
qed

text \<open>
  Claim C1 as it was stated, without the fourth hypothesis, fails. When the output of
  \<^verbatim>\<open>npm pack\<close> names a directory, or when the kernel refuses the \<^verbatim>\<open>unlink\<close>, the three
  steps succeed, \<^verbatim>\<open>unlinkSync\<close> throws, the run exits with status 1 and the archive is
  still there.
\<close>

theorem archive_left_when_unlink_throws:
  "run_command env_dir (js ''npm pack'') (fs dir_world) =
     (Inr (js ''dist'' @ [10]), [js ''dist'' \<mapsto> octal [0,4,0,7,5,5]]) \<and>
   [js ''dist'' \<mapsto> octal [0,4,0,7,5,5]] (trim (js ''dist'' @ [10])) =
     Some (octal [0,4,0,7,5,5]) \<and>
   run_command env_dir (install_command env_dir (trim (js ''dist'' @ [10])))
       [js ''dist'' \<mapsto> octal [0,4,0,7,5,5]] =
     (Inr [], [js ''dist'' \<mapsto> octal [0,4,0,7,5,5]]) \<and>
   fst (package_and_install env_dir dir_world) = 1 \<and>
   fs (snd (package_and_install env_dir dir_world)) (js ''dist'') =
     Some (octal [0,4,0,7,5,5]) \<and>
   run_command env_unlink_denied (js ''npm pack'') (fs empty_world) =
     (Inr pack_output, [js ''pkg-1.0.0.tgz'' \<mapsto> octal [1,0,0,6,4,4]]) \<and>
   run_command env_unlink_denied (install_command env_unlink_denied (trim pack_output))
       [js ''pkg-1.0.0.tgz'' \<mapsto> octal [1,0,0,6,4,4]] =
     (Inr [], [js ''pkg-1.0.0.tgz'' \<mapsto> octal [1,0,0,6,4,4]]) \<and>
   fst (package_and_install env_unlink_denied empty_world) = 1 \<and>
   fs (snd (package_and_install env_unlink_denied empty_world)) (js ''pkg-1.0.0.tgz'') =
     Some (octal [1,0,0,6,4,4])"
proof -
  have tr: "trim (js ''dist'' @ [10]) = js ''dist''"
    by (simp add: trim_def js_def is_ws_def)
  have pack: "run_command env_dir (js ''npm pack'') (fs dir_world) =
      (Inr (js ''dist'' @ [10]), [js ''dist'' \<mapsto> octal [0,4,0,7,5,5]])"
    by (simp add: env_dir_def fake_pack dir_world_def)
  have ex: "[js ''dist'' \<mapsto> octal [0,4,0,7,5,5]] (trim (js ''dist'' @ [10])) =
      Some (octal [0,4,0,7,5,5])"
    by (simp add: tr)
  have inst: "run_command env_dir (install_command env_dir (trim (js ''dist'' @ [10])))
       [js ''dist'' \<mapsto> octal [0,4,0,7,5,5]] =
     (Inr [], [js ''dist'' \<mapsto> octal [0,4,0,7,5,5]])"
    by (simp add: env_dir_def fake_install js_def)
  have del: "os_unlink env_dir (trim (js ''dist'' @ [10]))
       [js ''dist'' \<mapsto> octal [0,4,0,7,5,5]] = Inl (eisdir ''unlink'' (js ''dist''))"
    by (simp add: env_dir_def fake_unlink tr octal_def)
  have pack2: "run_command env_unlink_denied (js ''npm pack'') (fs empty_world) =
      (Inr pack_output, [js ''pkg-1.0.0.tgz'' \<mapsto> octal [1,0,0,6,4,4]])"
    by (simp add: env_unlink_denied_def env_ok_def fake_env_def fake_npm_def empty_world_def)
  have ex2: "[js ''pkg-1.0.0.tgz'' \<mapsto> octal [1,0,0,6,4,4]] (trim pack_output) =
      Some (octal [1,0,0,6,4,4])"
    by (simp add: trim_pack_output)
  have inst2: "run_command env_unlink_denied
       (install_command env_unlink_denied (trim pack_output))
       [js ''pkg-1.0.0.tgz'' \<mapsto> octal [1,0,0,6,4,4]] =
     (Inr [], [js ''pkg-1.0.0.tgz'' \<mapsto> octal [1,0,0,6,4,4]])"
    by (simp add: env_unlink_denied_def env_ok_def fake_env_def fake_npm_def
        install_command_def install_command_not_pack)
  have del2: "os_unlink env_unlink_denied (trim pack_output)
       [js ''pkg-1.0.0.tgz'' \<mapsto> octal [1,0,0,6,4,4]] =
     Inl (eacces ''unlink'' (trim pack_output))"
    by (simp add: env_unlink_denied_def os_unlink_def)
  show ?thesis
    using pack ex inst pack2 inst2
    by (simp add: run_unlink_fails [OF pack ex inst del]
        run_unlink_fails [OF pack2 ex2 inst2 del2] tr trim_pack_output)
qed

text \<open>
  Claim C2. In every run in which the install command throws, the script exits with
  status 1, it never calls \<^verbatim>\<open>unlinkSync\<close>, and the final file system is exactly the one the
  failed install command left: the script has deleted nothing.
\<close>

theorem install_failure_keeps_archive:
  assumes "run_command e (js ''npm pack'') (fs w) = (Inr out, f1)"
    and "f1 (trim out) = Some m"
    and "run_command e (install_command e (trim out)) f1 = (Inl err, f2)"
  shows "fst (package_and_install e w) = 1 \<and>
         fs (snd (package_and_install e w)) = f2 \<and>
         trace (snd (package_and_install e w)) =
           trace w @ events_until_install e (trim out) @
           [ConsoleError [Str (js ''An error occurred:''), Str (message err)]] \<and>
         (\<forall>p. UnlinkSync p \<notin> set (events_until_install e (trim out)))"
  by (simp add: run_install_fails [OF assms])

theorem install_failure_keeps_archive_witness:
  "run_command env_install_fails (js ''npm pack'') (fs empty_world) =
     (Inr pack_output, [js ''pkg-1.0.0.tgz'' \<mapsto> octal [1,0,0,6,4,4]]) \<and>
   [js ''pkg-1.0.0.tgz'' \<mapsto> octal [1,0,0,6,4,4]] (trim pack_output) = Some (octal [1,0,0,6,4,4]) \<and>
   run_command env_install_fails (install_command env_install_fails (trim pack_output))
       [js ''pkg-1.0.0.tgz'' \<mapsto> octal [1,0,0,6,4,4]] =
     (Inl (Error (js ''Command failed: npm install'')),
      [js ''pkg-1.0.0.tgz'' \<mapsto> octal [1,0,0,6,4,4]]) \<and>
   fst (package_and_install env_install_fails empty_world) = 1 \<and>
   fs (snd (package_and_install env_install_fails empty_world)) (js ''pkg-1.0.0.tgz'') =
     Some (octal [1,0,0,6,4,4])"
proof -
  have pack: "run_command env_install_fails (js ''npm pack'') (fs empty_world) =
      (Inr pack_output, [js ''pkg-1.0.0.tgz'' \<mapsto> octal [1,0,0,6,4,4]])"
    by (simp add: env_install_fails_def fake_pack empty_world_def)
  have ex: "[js ''pkg-1.0.0.tgz'' \<mapsto> octal [1,0,0,6,4,4]] (trim pack_output) =
      Some (octal [1,0,0,6,4,4])"
    by (simp add: trim_pack_output)
  have inst: "run_command env_install_fails
       (install_command env_install_fails (trim pack_output))
       [js ''pkg-1.0.0.tgz'' \<mapsto> octal [1,0,0,6,4,4]] =
     (Inl (Error (js ''Command failed: npm install'')),
      [js ''pkg-1.0.0.tgz'' \<mapsto> octal [1,0,0,6,4,4]])"
    by (simp add: env_install_fails_def fake_install)
  show ?thesis
    using install_failure_keeps_archive [OF pack ex inst] pack ex inst
    by simp
qed

text \<open>
  Claim C3. In every run in which the trimmed output of \<^verbatim>\<open>npm pack\<close> names no existing
  file, the script throws \<^verbatim>\<open>Failed to create .tgz file: \<close> followed by the name, which is
  logged, and exits with status 1; after the existence check it makes no call but that
  \<^verbatim>\<open>console.error\<close>: neither the install command nor \<^verbatim>\<open>unlinkSync\<close> runs.
\<close>

theorem missing_archive_stops_run:
  assumes "run_command e (js ''npm pack'') (fs w) = (Inr out, f1)"
    and "f1 (trim out) = None"
  shows "\<exists>evs. package_and_install e w = (1, \<lparr>fs = f1, trace = trace w @ evs\<rparr>) \<and>
           evs = [ConsoleLog [Str (js ''Packing the project...'')],
                  ExecSync (js ''npm pack''),
                  ExistsSync (trim out),
                  ConsoleError [Str (js ''An error occurred:''),
                                Str (js ''Failed to create .tgz file: '' @ trim out)]] \<and>
           ExecSync (install_command e (trim out)) \<notin> set evs \<and>
           (\<forall>p. UnlinkSync p \<notin> set evs)"
  by (simp add: run_archive_missing [OF assms] install_command_def install_command_not_pack)

theorem missing_archive_stops_run_witness:
  "run_command env_no_archive (js ''npm pack'') (fs empty_world) = (Inr pack_output, Map.empty) \<and>
   Map.empty (trim pack_output) = (None :: mode option) \<and>
   package_and_install env_no_archive empty_world =
     (1, \<lparr>fs = Map.empty,
          trace = [ConsoleLog [Str (js ''Packing the project...'')],
                   ExecSync (js ''npm pack''),
                   ExistsSync (js ''pkg-1.0.0.tgz''),
                   ConsoleError [Str (js ''An error occurred:''),
                                 Str (js ''Failed to create .tgz file: pkg-1.0.0.tgz'')]]\<rparr>)"
proof -
  have pack: "run_command env_no_archive (js ''npm pack'') (fs empty_world) =
      (Inr pack_output, Map.empty)"
    by (simp add: env_no_archive_def fake_pack empty_world_def)
  have ex: "Map.empty (trim pack_output) = (None :: mode option)"
    by simp
  have msg: "js ''Failed to create .tgz file: '' @ js ''pkg-1.0.0.tgz'' =
      js ''Failed to create .tgz file: pkg-1.0.0.tgz''"
    by (simp add: js_def)
  have tr: "trace empty_world = []"
    by (simp add: empty_world_def)
  show ?thesis
    using missing_archive_stops_run [OF pack ex] pack
    by (simp add: trim_pack_output msg tr)
qed

text \<open>
  Claim C4. Whichever of the four steps throws (the \<^verbatim>\<open>npm pack\<close> command, the existence
  check, the install command, \<^verbatim>\<open>unlinkSync\<close> with whatever error \<^verbatim>\<open>unlink\<close> fails), the
  run exits with status 1 and its only
  \<^verbatim>\<open>console.error\<close> call, which is also its last call, logs \<^verbatim>\<open>An error occurred:\<close> with
  the message of that error; a run in which all four steps complete exits with status 0
  and logs no error. Here \<open>errors\<close> are the \<^verbatim>\<open>console.error\<close> calls of the run.
\<close>

theorem failures_caught_once:
  "(let r = package_and_install e w;
        errors = [args. ConsoleError args \<leftarrow> drop (length (trace w)) (trace (snd r))];
        caught = (\<lambda>err. fst r = 1 \<and>
                    errors = [[Str (js ''An error occurred:''), Str (message err)]] \<and>
                    last (trace (snd r)) =
                      ConsoleError [Str (js ''An error occurred:''), Str (message err)])
    in case run_command e (js ''npm pack'') (fs w) of
         (Inl err, f1) \<Rightarrow> caught err
       | (Inr out, f1) \<Rightarrow>
           if f1 (trim out) = None
           then caught (Error (js ''Failed to create .tgz file: '' @ trim out))
           else (case run_command e (install_command e (trim out)) f1 of
                   (Inl err, f2) \<Rightarrow> caught err
                 | (Inr out2, f2) \<Rightarrow>
                     (case os_unlink e (trim out) f2 of
                        Inl err \<Rightarrow> caught err
                      | Inr f3 \<Rightarrow> fst r = 0 \<and> errors = [])))"
proof (cases "run_command e (js ''npm pack'') (fs w)")
  case (Pair r1 f1)
  show ?thesis
  proof (cases r1)
    case (Inl err)
    with Pair show ?thesis
      by (simp add: run_pack_fails)
  next
    case (Inr out)
    note pack = Pair [unfolded Inr]
    show ?thesis
    proof (cases "f1 (trim out)")
      case None
      with pack show ?thesis
        by (simp add: run_archive_missing)
    next
      case (Some m)
      show ?thesis
      proof (cases "run_command e (install_command e (trim out)) f1")
        case inst: (Pair r2 f2)
        show ?thesis
        proof (cases r2)
          case (Inl err)
          with pack Some inst show ?thesis
            by (simp add: run_install_fails [OF pack Some inst [unfolded Inl]])
        next
          case (Inr out2)
          note inst' = inst [unfolded Inr]
          show ?thesis
          proof (cases "os_unlink e (trim out) f2")
            case del: (Inl err)
            with pack Some inst' show ?thesis
              by (simp add: run_unlink_fails [OF pack Some inst' del])
          next
            case del: (Inr f3)
            with pack Some inst' show ?thesis
              by (simp add: run_success [OF pack Some inst' del])
          qed
        qed
      qed
    qed
  qed
qed

theorem failures_caught_once_witness:
  "fst (package_and_install env_pack_fails empty_world) = 1 \<and>
   [args. ConsoleError args \<leftarrow> trace (snd (package_and_install env_pack_fails empty_world))] =
     [[Str (js ''An error occurred:''), Str (js ''Command failed: npm pack'')]] \<and>
   fst (package_and_install env_no_archive empty_world) = 1 \<and>
   [args. ConsoleError args \<leftarrow> trace (snd (package_and_install env_no_archive empty_world))] =
     [[Str (js ''An error occurred:''),
       Str (js ''Failed to create .tgz file: '' @ js ''pkg-1.0.0.tgz'')]] \<and>
   fst (package_and_install env_install_fails empty_world) = 1 \<and>
   [args. ConsoleError args \<leftarrow> trace (snd (package_and_install env_install_fails empty_world))] =
     [[Str (js ''An error occurred:''), Str (js ''Command failed: npm install'')]] \<and>
   fst (package_and_install env_install_removes empty_world) = 1 \<and>
   [args. ConsoleError args \<leftarrow> trace (snd (package_and_install env_install_removes empty_world))] =
     [[Str (js ''An error occurred:''),
       Str (message (enoent ''unlink'' (js ''pkg-1.0.0.tgz'')))]] \<and>
   fst (package_and_install env_dir dir_world) = 1 \<and>
   [args. ConsoleError args \<leftarrow> trace (snd (package_and_install env_dir dir_world))] =
     [[Str (js ''An error occurred:''), Str (message (eisdir ''unlink'' (js ''dist'')))]] \<and>
   fst (package_and_install env_ok empty_world) = 0 \<and>
   [args. ConsoleError args \<leftarrow> trace (snd (package_and_install env_ok empty_world))] = []"
proof -
  have tr: "trace empty_world = []" "trace dir_world = []"
    by (simp_all add: empty_world_def dir_world_def)
  have fs0: "fs empty_world = Map.empty" "fs dir_world = [js ''dist'' \<mapsto> octal [0,4,0,7,5,5]]"
    by (simp_all add: empty_world_def dir_world_def)
  have reg: "octal [1,0,0,6,4,4] AND octal [1,7,0,0,0,0] \<noteq> octal [0,4,0,0,0,0]"
    and dir: "octal [0,4,0,7,5,5] AND octal [1,7,0,0,0,0] = octal [0,4,0,0,0,0]"
    by (simp_all add: octal_def)
  have dist: "trim (js ''dist'' @ [10]) = js ''dist''"
    by (simp add: trim_def js_def is_ws_def)
  have a: "fst (package_and_install env_pack_fails empty_world) = 1 \<and>
   [args. ConsoleError args \<leftarrow> trace (snd (package_and_install env_pack_fails empty_world))] =
     [[Str (js ''An error occurred:''), Str (js ''Command failed: npm pack'')]]"
    using failures_caught_once [of env_pack_fails empty_world]
    by (simp add: env_pack_fails_def fake_pack tr Let_def)
  have b: "fst (package_and_install env_no_archive empty_world) = 1 \<and>
   [args. ConsoleError args \<leftarrow> trace (snd (package_and_install env_no_archive empty_world))] =
     [[Str (js ''An error occurred:''),
       Str (js ''Failed to create .tgz file: '' @ js ''pkg-1.0.0.tgz'')]]"
    using failures_caught_once [of env_no_archive empty_world]
    by (simp add: env_no_archive_def fake_pack tr Let_def trim_pack_output fs0)
  have c: "fst (package_and_install env_install_fails empty_world) = 1 \<and>
   [args. ConsoleError args \<leftarrow> trace (snd (package_and_install env_install_fails empty_world))] =
     [[Str (js ''An error occurred:''), Str (js ''Command failed: npm install'')]]"
    using failures_caught_once [of env_install_fails empty_world]
    by (simp add: env_install_fails_def fake_pack fake_install tr Let_def trim_pack_output)
  have d: "fst (package_and_install env_install_removes empty_world) = 1 \<and>
   [args. ConsoleError args \<leftarrow> trace (snd (package_and_install env_install_removes empty_world))] =
     [[Str (js ''An error occurred:''),
       Str (message (enoent ''unlink'' (js ''pkg-1.0.0.tgz'')))]]"
    using failures_caught_once [of env_install_removes empty_world]
    by (simp add: env_install_removes_def fake_pack fake_install fake_unlink tr Let_def
        trim_pack_output fs0)
  have e: "fst (package_and_install env_dir dir_world) = 1 \<and>
   [args. ConsoleError args \<leftarrow> trace (snd (package_and_install env_dir dir_world))] =
     [[Str (js ''An error occurred:''), Str (message (eisdir ''unlink'' (js ''dist'')))]]"
    using failures_caught_once [of env_dir dir_world]
    by (simp add: env_dir_def fake_pack fake_install fake_unlink tr Let_def dist fs0 dir)
  have f: "fst (package_and_install env_ok empty_world) = 0 \<and>
   [args. ConsoleError args \<leftarrow> trace (snd (package_and_install env_ok empty_world))] = []"
    using failures_caught_once [of env_ok empty_world]
    by (simp add: env_ok_def fake_pack fake_install fake_unlink tr Let_def trim_pack_output
        fs0 reg)
  from a b c d e f show ?thesis
    by blast
qed

text \<open>
  Claim C7. In every run in which the trimmed output of \<^verbatim>\<open>npm pack\<close> names an existing
  file, the script runs the command \<^verbatim>\<open>npm install -g\<close> followed by
  \<^verbatim>\<open>path.join(process.cwd(), tgzFile)\<close>, having made no \<^verbatim>\<open>unlinkSync\<close> call before it; if
  that command throws no \<^verbatim>\<open>unlinkSync\<close> call follows, and if it succeeds the next call
  on the file system is \<^verbatim>\<open>unlinkSync\<close> of the archive.
\<close>

theorem install_invoked_with_joined_path:
  assumes "run_command e (js ''npm pack'') (fs w) = (Inr out, f1)"
    and "f1 (trim out) = Some m"
  shows "\<exists>rest. trace (snd (package_and_install e w)) =
                  trace w @
                  [ConsoleLog [Str (js ''Packing the project...'')],
                   ExecSync (js ''npm pack''),
                   ExistsSync (trim out),
                   ConsoleLog [Str (js ''Package created: '' @ trim out)],
                   ConsoleLog [Str (js ''Installing the package globally...'')],
                   ExecSync (js ''npm install -g '' @ path_join e [cwd e, trim out])] @ rest \<and>
           (case fst (run_command e (install_command e (trim out)) f1) of
              Inl err \<Rightarrow> \<forall>p. UnlinkSync p \<notin> set rest
            | Inr out2 \<Rightarrow>
                \<exists>ev. rest = [ConsoleLog [Str (js ''Package installed globally successfully!'')],
                             ConsoleLog [Str (js ''Cleaning up...'')],
                             UnlinkSync (trim out), ev])"
proof (cases "run_command e (install_command e (trim out)) f1")
  case inst: (Pair r2 f2)
  show ?thesis
  proof (cases r2)
    case (Inl err)
    show ?thesis
      by (simp add: run_install_fails [OF assms inst [unfolded Inl]] inst Inl)
  next
    case (Inr out2)
    note inst' = inst [unfolded Inr]
    show ?thesis
    proof (cases "os_unlink e (trim out) f2")
      case del: (Inl err)
      show ?thesis
        by (simp add: run_unlink_fails [OF assms inst' del] inst')
    next
      case del: (Inr f3)
      show ?thesis
        by (simp add: run_success [OF assms inst' del] inst')
    qed
  qed
qed

theorem install_invoked_with_joined_path_witness:
  "run_command env_ok (js ''npm pack'') (fs empty_world) =
     (Inr pack_output, [js ''pkg-1.0.0.tgz'' \<mapsto> octal [1,0,0,6,4,4]]) \<and>
   [js ''pkg-1.0.0.tgz'' \<mapsto> octal [1,0,0,6,4,4]] (trim pack_output) = Some (octal [1,0,0,6,4,4]) \<and>
   (\<exists>ev. trace (snd (package_and_install env_ok empty_world)) =
      [ConsoleLog [Str (js ''Packing the project...'')],
       ExecSync (js ''npm pack''),
       ExistsSync (js ''pkg-1.0.0.tgz''),
       ConsoleLog [Str (js ''Package created: '' @ js ''pkg-1.0.0.tgz'')],
       ConsoleLog [Str (js ''Installing the package globally...'')],
       ExecSync (js ''npm install -g /work/pkg-1.0.0.tgz''),
       ConsoleLog [Str (js ''Package installed globally successfully!'')],
       ConsoleLog [Str (js ''Cleaning up...'')],
       UnlinkSync (js ''pkg-1.0.0.tgz''), ev])"
proof -
  have pack: "run_command env_ok (js ''npm pack'') (fs empty_world) =
      (Inr pack_output, [js ''pkg-1.0.0.tgz'' \<mapsto> octal [1,0,0,6,4,4]])"
    by (simp add: env_ok_def fake_pack empty_world_def)
  have ex: "[js ''pkg-1.0.0.tgz'' \<mapsto> octal [1,0,0,6,4,4]] (trim pack_output) =
      Some (octal [1,0,0,6,4,4])"
    by (simp add: trim_pack_output)
  have tr: "trace empty_world = []"
    by (simp add: empty_world_def)
  have cmd: "js ''npm install -g '' @ path_join env_ok [cwd env_ok, js ''pkg-1.0.0.tgz''] =
      js ''npm install -g /work/pkg-1.0.0.tgz''"
    by (simp only: env_ok_def fake_install_command)
  have inst: "fst (run_command env_ok (install_command env_ok t) f) = Inr []" for t f
    by (simp add: env_ok_def fake_install)
  show ?thesis
    using install_invoked_with_joined_path [OF pack ex] pack ex
    by (auto simp add: trim_pack_output tr cmd inst)
qed

text \<open>
  Claim C8. The archive name is the output of \<^verbatim>\<open>npm pack\<close> without its leading and trailing
  white space and nothing else: the output is a run of white space, the name, and a run of
  white space; a non-empty name neither starts nor ends with white space; and every
  \<^verbatim>\<open>existsSync\<close>, \<^verbatim>\<open>unlinkSync\<close> and install command of the run is given exactly that
  name.
\<close>

theorem archive_name_is_trimmed_output:
  assumes "run_command e (js ''npm pack'') (fs w) = (Inr out, f1)"
  shows "(\<exists>pre suf. out = pre @ trim out @ suf \<and>
            (\<forall>c\<in>set pre. is_ws c) \<and> (\<forall>c\<in>set suf. is_ws c)) \<and>
         (trim out \<noteq> [] \<longrightarrow> \<not> is_ws (hd (trim out)) \<and> \<not> is_ws (last (trim out))) \<and>
         (\<exists>evs. trace (snd (package_and_install e w)) = trace w @ evs \<and>
            ExistsSync (trim out) \<in> set evs \<and>
            (\<forall>p. ExistsSync p \<in> set evs \<longrightarrow> p = trim out) \<and>
            (\<forall>p. UnlinkSync p \<in> set evs \<longrightarrow> p = trim out) \<and>
            (\<forall>c. ExecSync c \<in> set evs \<longrightarrow>
               c = js ''npm pack'' \<or>
               c = js ''npm install -g '' @ path_join e [cwd e, trim out]))"
proof -
  have steps: "\<exists>evs. trace (snd (package_and_install e w)) = trace w @ evs \<and>
            ExistsSync (trim out) \<in> set evs \<and>
            (\<forall>p. ExistsSync p \<in> set evs \<longrightarrow> p = trim out) \<and>
            (\<forall>p. UnlinkSync p \<in> set evs \<longrightarrow> p = trim out) \<and>
            (\<forall>c. ExecSync c \<in> set evs \<longrightarrow>
               c = js ''npm pack'' \<or>
               c = js ''npm install -g '' @ path_join e [cwd e, trim out])"
  proof (cases "f1 (trim out)")
    case None
    show ?thesis
      by (simp add: run_archive_missing [OF assms None])
  next
    case (Some m)
    show ?thesis
    proof (cases "run_command e (install_command e (trim out)) f1")
      case inst: (Pair r2 f2)
      show ?thesis
      proof (cases r2)
        case (Inl err)
        show ?thesis
          by (auto simp add: run_install_fails [OF assms Some inst [unfolded Inl]])
      next
        case (Inr out2)
        note inst' = inst [unfolded Inr]
        show ?thesis
        proof (cases "os_unlink e (trim out) f2")
          case del: (Inl err)
          show ?thesis
            by (auto simp add: run_unlink_fails [OF assms Some inst' del])
        next
          case del: (Inr f3)
          show ?thesis
            by (auto simp add: run_success [OF assms Some inst' del])
        qed
      qed
    qed
  qed
  from trim_decompose [of out] trim_hd [of out] trim_last [of out] steps
  show ?thesis
    by blast
qed

theorem archive_name_is_trimmed_output_witness:
  "run_command env_ok (js ''npm pack'') (fs empty_world) =
     (Inr (js ''pkg-1.0.0.tgz'' @ [10]), [js ''pkg-1.0.0.tgz'' \<mapsto> octal [1,0,0,6,4,4]]) \<and>
   trim (js ''pkg-1.0.0.tgz'' @ [10]) = js ''pkg-1.0.0.tgz'' \<and>
   ExistsSync (js ''pkg-1.0.0.tgz'') \<in> set (trace (snd (package_and_install env_ok empty_world))) \<and>
   ExistsSync (js ''pkg-1.0.0.tgz'' @ [10]) \<notin>
     set (trace (snd (package_and_install env_ok empty_world))) \<and>
   UnlinkSync (js ''pkg-1.0.0.tgz'' @ [10]) \<notin>
     set (trace (snd (package_and_install env_ok empty_world)))"
proof -
  have pack: "run_command env_ok (js ''npm pack'') (fs empty_world) =
      (Inr pack_output, [js ''pkg-1.0.0.tgz'' \<mapsto> octal [1,0,0,6,4,4]])"
    by (simp add: env_ok_def fake_pack empty_world_def)
  have tr: "trace empty_world = []"
    by (simp add: empty_world_def)
  have out: "js ''pkg-1.0.0.tgz'' @ [10] = pack_output"
    by (simp add: pack_output_def)
  have ne: "pack_output \<noteq> js ''pkg-1.0.0.tgz''"
    by (simp add: pack_output_def)
  show ?thesis
    using archive_name_is_trimmed_output [OF pack] pack ne
    unfolding out trim_pack_output tr
    by auto
qed

end
